theory Spec2Isabelle
  imports Complex_Main "HOL-Library.Char_ord" "HOL-Library.List_Lexorder" "HOL-Library.Log_Nat"
begin

text \<open>
  The footage-ingestion and review workflow of the application, as its two API layers
  implement it: the handlers of the path-style HTTP API and the procedures of the RPC
  layer, each a function from the request and the store to the answer and the store after
  it. What a handler does outside the store (metadata request, download, clip extractor) is
  recorded in a list of effects kept with the store. The handlers take the inputs their
  schemas have let through.
\<close>

section \<open>The path-style HTTP API: \<open>footage.controller.ts\<close>\<close>

text \<open>
  The controller works on two Mongoose collections, \<open>Footage\<close> and \<open>Clip\<close>. A collection
  is the list of its documents in insertion order. \<open>findOne\<close> answers the first matching
  document or \<open>null\<close> (\<open>None\<close>), \<open>find\<close> all matching documents, \<open>findOneAndUpdate\<close> and
  \<open>deleteOne\<close> touch the first matching document only.
\<close>

record Footage =
  uuid :: string
  discordId :: string
  username :: string
  youtubeUrl :: string
  isCsgoFootage :: bool
  isAnalyzed :: bool

text \<open>
  Modelled from the spec: the Clip document type (\<open>models/clip.interface\<close> is not among the
  sources). The spec gives a clip an id and a reference to its owning footage; the controller
  reads the reference as the field \<open>footage\<close>.
\<close>

record Clip =
  clip_id :: string
  footage :: string

text \<open>\<open>createHttpError(status, message)\<close>.\<close>

datatype http_error = HttpError nat string

text \<open>
  What a handler does to the world outside the collections, in the order it does it:
  the metadata request, the start of the download into a local file, the external clip
  extractor.
\<close>

datatype effect =
  GetInfo string
  | Download string string
  | Spawn string "string list"
  | ParseClips string string

record backend =
  Footage_docs :: "Footage list"
  Clip_docs :: "Clip list"
  backend_effects :: "effect list"

text \<open>
  The answers of the collaborators to one request: the identifiers \<open>uuidv4()\<close> and \<open>cuid()\<close>
  draw and the id the relational store gives a created row; what \<open>ytdl.getInfo\<close> resolves to
  (\<open>Inl m\<close>: it rejects with an \<open>Error\<close> of message \<open>m\<close>; \<open>Inr\<close>: the itags of the formats it
  lists); whether the file writer ever emits \<open>finish\<close>; and the exit code with which the
  spawned child closes, if it ever does.
\<close>

record world =
  uuidv4 :: string
  cuid :: string
  row_id :: string
  getInfo :: "string \<Rightarrow> string + int list"
  writer_finishes :: bool
  child_close :: "int option"

text \<open>
  \<open>child_process.spawn\<close>: the \<open>stdio\<close> option decides whether the child object has a \<open>stdout\<close>
  stream. Node gives one only for \<open>'pipe'\<close>; for \<open>'inherit'\<close> and \<open>'ignore'\<close> the field \<open>stdout\<close> is
  \<open>null\<close>.
\<close>

datatype stdio = Pipe | Inherit | Ignore

definition spawn_stdout :: "stdio \<Rightarrow> bool" where
  "spawn_stdout io = (io = Pipe)"

definition findOne :: "('a \<Rightarrow> bool) \<Rightarrow> 'a list \<Rightarrow> 'a option" where
  "findOne p docs = find p docs"

definition find_docs :: "('a \<Rightarrow> bool) \<Rightarrow> 'a list \<Rightarrow> 'a list" where
  "find_docs p docs = filter p docs"

fun update_first :: "('a \<Rightarrow> bool) \<Rightarrow> ('a \<Rightarrow> 'a) \<Rightarrow> 'a list \<Rightarrow> 'a list" where
  "update_first p f [] = []"
| "update_first p f (x # xs) = (if p x then f x # xs else x # update_first p f xs)"

fun remove_first :: "('a \<Rightarrow> bool) \<Rightarrow> 'a list \<Rightarrow> 'a list" where
  "remove_first p [] = []"
| "remove_first p (x # xs) = (if p x then xs else x # remove_first p xs)"

definition findOneAndUpdate ::
  "('a \<Rightarrow> bool) \<Rightarrow> ('a \<Rightarrow> 'a) \<Rightarrow> 'a list \<Rightarrow> 'a option \<times> 'a list" where
  "findOneAndUpdate p f docs = (find p docs, update_first p f docs)"

definition deleteOne :: "('a \<Rightarrow> bool) \<Rightarrow> 'a list \<Rightarrow> nat \<times> 'a list" where
  "deleteOne p docs = ((if find p docs = None then 0 else 1), remove_first p docs)"

text \<open>The double quote inside the messages.\<close>

definition dq :: string where
  "dq = [CHR 0x22]"

text \<open>The message of the \<open>TypeError\<close> for calling \<open>on\<close> on \<open>null\<close>.\<close>

definition sq :: string where
  "sq = [CHR 0x27]"

definition null_stdout_message :: string where
  "null_stdout_message = ''Cannot read properties of null (reading '' @ sq @ ''on'' @ sq @ '')''"

text \<open>
  \<open>createFootage\<close>. Logging is left out. The result is \<open>None\<close> when the handler's promise
  never settles (the writer never finishes), \<open>Some (Inl e)\<close> when it throws, \<open>Some (Inr v)\<close>
  when it returns \<open>v\<close>; the handler has no \<open>return\<close> on its success path, so it would return
  \<open>undefined\<close> (\<open>None\<close>). Every \<open>Error\<close> thrown inside the \<open>try\<close> block comes back as a 406
  with its message. The child is spawned with \<open>stdio: 'inherit'\<close>, so \<open>python.stdout\<close> is \<open>null\<close>
  and \<open>python.stdout.on\<close> throws a \<open>TypeError\<close> inside the \<open>then\<close> callback, before
  \<open>python.on('close', ...)\<close> is reached: the \<open>close\<close> callback, which alone creates the
  document, is never registered. The model keeps that callback as the branch after the
  test of \<open>spawn_stdout\<close>.
\<close>

definition createFootage ::
  "world \<Rightarrow> string \<times> string \<times> string \<Rightarrow> backend
    \<Rightarrow> (http_error + Footage option) option \<times> backend" where
  "createFootage w input s =
    (case input of (id', username', url) \<Rightarrow>
      (case findOne (\<lambda>d. youtubeUrl d = url) (Footage_docs s) of
        Some existingFootage \<Rightarrow>
          (Some (Inl (HttpError 400 (''URL '' @ url @ '' has already been submitted.''))), s)
      | None \<Rightarrow>
          (let footageId = uuidv4 w;
               file = footageId @ ''.mp4'';
               s1 = s\<lparr>backend_effects := backend_effects s @ [GetInfo url]\<rparr>
           in case getInfo w url of
                Inl m \<Rightarrow> (Some (Inl (HttpError 406 m)), s1)
              | Inr details \<Rightarrow>
                  (let s2 = s1\<lparr>backend_effects := backend_effects s1 @ [Download url file]\<rparr>
                   in if \<not> writer_finishes w then (None, s2)
                      else
                        (let s3 = s2\<lparr>backend_effects := backend_effects s2 @
                                    [Spawn ''python3'' [''autoClip.py'', file, ''clips'']]\<rparr>
                         in if \<not> spawn_stdout Inherit
                            then (Some (Inl (HttpError 406 null_stdout_message)), s3)
                            else
                              (case child_close w of
                                None \<Rightarrow> (Some (Inr None), s3)
                              | Some code \<Rightarrow>
                                  (let footageInput =
                                         \<lparr>uuid = footageId, discordId = id',
                                          username = username', youtubeUrl = url,
                                          isCsgoFootage = False, isAnalyzed = False\<rparr>
                                   in (Some (Inr None),
                                       s3\<lparr>Footage_docs := Footage_docs s3 @ [footageInput]\<rparr>))))))))"

definition getUserFootage :: "string \<Rightarrow> backend \<Rightarrow> http_error + Footage list" where
  "getUserFootage discordId' s =
    (let footage' = find_docs (\<lambda>d. discordId d = discordId') (Footage_docs s)
     in if length footage' = 0
        then Inl (HttpError 404 ''No footage found with the provided User ID.'')
        else Inr footage')"

definition getFootageClips :: "string \<Rightarrow> backend \<Rightarrow> http_error + Clip list" where
  "getFootageClips uuid' s =
    (let clips = find_docs (\<lambda>c. footage c = uuid') (Clip_docs s)
     in if length clips = 0
        then Inl (HttpError 404 (''No clips found for footage with uuid '' @ dq @ uuid' @ dq))
        else Inr clips)"

text \<open>
  \<open>updateFootage\<close>. \<open>findOneAndUpdate\<close> answers the document as it was before the update. The
  412 error is thrown inside the \<open>try\<close> block, so the \<open>catch\<close> re-throws it as a 418 with the
  same message.
\<close>

definition updateFootage ::
  "string \<times> bool \<times> bool \<Rightarrow> backend \<Rightarrow> (http_error + Footage) \<times> backend" where
  "updateFootage input s =
    (case input of (uuid', isAnalyzed', isCsgoFootage') \<Rightarrow>
      (case findOneAndUpdate (\<lambda>d. uuid d = uuid')
              (\<lambda>d. d\<lparr>isAnalyzed := isAnalyzed', isCsgoFootage := isCsgoFootage'\<rparr>)
              (Footage_docs s) of
        (None, docs) \<Rightarrow> (Inl (HttpError 418 ''No document with that UUID was found.''), s)
      | (Some result, docs) \<Rightarrow> (Inr result, s\<lparr>Footage_docs := docs\<rparr>)))"

definition deleteFootage :: "string \<Rightarrow> backend \<Rightarrow> (http_error + string) \<times> backend" where
  "deleteFootage uuid' s =
    (case deleteOne (\<lambda>d. uuid d = uuid') (Footage_docs s) of
      (deletedCount, docs) \<Rightarrow>
        if deletedCount = 0
        then (Inl (HttpError 404 (''Footage with uuid '' @ dq @ uuid' @ dq @ '' not found.'')), s)
        else (Inr ''Footage deleted successfully.'', s\<lparr>Footage_docs := docs\<rparr>))"

section \<open>The RPC layer: \<open>trpc.ts\<close> and \<open>router/gameplay.ts\<close>\<close>

text \<open>
  The rows of the relational store behind \<open>ctx.prisma\<close>. The fields of a gameplay row are the
  source's \<open>id\<close>, \<open>userId\<close>, \<open>youtubeUrl\<close>, \<open>gameplayType\<close>, \<open>isAnalyzed\<close> and \<open>videoFormat\<close>;
  \<open>create\<close> writes the category under the name \<open>footageType\<close>, which is taken to be the column
  that \<open>update\<close> and \<open>getMany\<close> call \<open>gameplayType\<close>. The fields of a vote row are the source's
  \<open>gameplayId\<close>, \<open>isGame\<close>, \<open>actualGame\<close> and \<open>userId\<close>.
\<close>

datatype GameplayTypes = VAL | CSG | TF2 | APE | COD | R6S

record Gameplay =
  gameplay_id :: string
  userId :: string
  gameplay_youtubeUrl :: string
  gameplayType :: GameplayTypes
  gameplay_isAnalyzed :: bool
  videoFormat :: "int option"

record GameplayVotes =
  vote_id :: string
  vote_gameplayId :: string
  vote_isGame :: bool
  vote_actualGame :: GameplayTypes
  vote_userId :: string

text \<open>
  Modelled from the spec: the roles of a user (the Prisma schema and \<open>hasPerms.ts\<close> are not
  among the sources). The spec names three roles: ordinary, moderator, admin.
\<close>

datatype Roles = USER | MOD | ADMIN

text \<open>
  A user, as the session and the \<open>user\<close> table carry it: the source reads \<open>id\<close>, \<open>name\<close>, \<open>role\<close>
  and \<open>blacklisted\<close>.
\<close>

record User =
  user_id :: string
  user_name :: "string option"
  role :: Roles
  blacklisted :: bool

text \<open>
  Modelled from the spec: the clip rows of the RPC layer (\<open>utils/zod/segment\<close> is not among
  the sources): an id and the reference to the owning gameplay row.
\<close>

record Segment =
  segment_id :: string
  segment_gameplayId :: string

record prisma =
  gameplay_rows :: "Gameplay list"
  gameplayVotes_rows :: "GameplayVotes list"
  segment_rows :: "Segment list"
  user_rows :: "User list"
  web_effects :: "effect list"

text \<open>
  What a procedure throws: a \<open>TRPCError\<close> with its code, message and cause, the store's
  \<open>NotFoundError\<close> (of \<open>findUniqueOrThrow\<close>), the store's rejection of an invalid query, or
  the \<open>Error\<close> with which \<open>ytdl.getInfo\<close> rejects.
\<close>

datatype trpc_code = NOT_FOUND | BAD_REQUEST | UNAUTHORIZED | FORBIDDEN | INTERNAL_SERVER_ERROR

datatype error =
  TRPCError trpc_code "string option" "error option"
  | NotFoundError
  | PrismaValidationError
  | YtdlError string

record Session =
  user :: "User option"

record Context =
  session :: "Session option"

text \<open>
  Modelled from the spec: \<open>hasPerms\<close> and \<open>Perms\<close> (\<open>server/utils/hasPerms\<close> is not among the
  sources). Section 4.1 of the spec: the levels are \<open>isOwner\<close> (the caller's id equals the
  resource owner's id, or the caller has an elevated role), \<open>roleMod\<close> (the caller's role is
  moderator or above) and \<open>roleAdmin\<close>; a blacklisted caller is denied regardless of level.
\<close>

datatype Perms = isOwner | roleMod | roleAdmin

definition hasPerms :: "string \<Rightarrow> Roles \<Rightarrow> string \<Rightarrow> Perms \<Rightarrow> bool \<Rightarrow> bool" where
  "hasPerms userId' userRole itemOwnerId requiredPerms blacklisted' =
    (if blacklisted' then False
     else case requiredPerms of
            isOwner \<Rightarrow> userId' = itemOwnerId \<or> userRole = MOD \<or> userRole = ADMIN
          | roleMod \<Rightarrow> userRole = MOD \<or> userRole = ADMIN
          | roleAdmin \<Rightarrow> userRole = ADMIN)"

text \<open>
  The middleware \<open>isAuthed\<close> and \<open>protectedProcedure\<close>: the handler of a protected procedure
  runs only with the session user the middleware lets through.
\<close>

definition isAuthed :: "Context \<Rightarrow> error + User" where
  "isAuthed ctx =
    (case session ctx of
       None \<Rightarrow> Inl (TRPCError UNAUTHORIZED None None)
     | Some sess \<Rightarrow>
         (case user sess of
            None \<Rightarrow> Inl (TRPCError UNAUTHORIZED None None)
          | Some u \<Rightarrow>
              if blacklisted u then Inl (TRPCError FORBIDDEN None None) else Inr u))"

definition protectedProcedure ::
  "(User \<Rightarrow> 'i \<Rightarrow> prisma \<Rightarrow> (error + 'o) \<times> prisma)
    \<Rightarrow> Context \<Rightarrow> 'i \<Rightarrow> prisma \<Rightarrow> (error + 'o) \<times> prisma" where
  "protectedProcedure handler ctx input s =
    (case isAuthed ctx of
       Inl e \<Rightarrow> (Inl e, s)
     | Inr u \<Rightarrow> handler u input s)"

text \<open>A query reads the store and leaves it as it is.\<close>

definition query ::
  "(User \<Rightarrow> 'i \<Rightarrow> prisma \<Rightarrow> error + 'o) \<Rightarrow> User \<Rightarrow> 'i \<Rightarrow> prisma \<Rightarrow> (error + 'o) \<times> prisma" where
  "query q u input s = (q u input s, s)"

text \<open>
  \<open>findMany\<close> with \<open>take\<close> and \<open>skip\<close> over the rows the \<open>where\<close> clause and the ordering leave,
  in the order of the table when no ordering is asked for. The store rejects a negative
  \<open>skip\<close>.
\<close>

definition findMany :: "nat \<Rightarrow> int \<Rightarrow> 'a list \<Rightarrow> error + 'a list" where
  "findMany take' skip' rows =
    (if skip' < 0 then Inl PrismaValidationError
     else Inr (take take' (drop (nat skip') rows)))"













text \<open>
  Modelled from the spec: the column defaults of a created gameplay row (the Prisma schema is
  not among the sources). \<open>create\<close> passes no \<open>isAnalyzed\<close>; section 4.3 of the spec has the
  record persisted with \<open>analyzed = false\<close>.
\<close>

definition default_isAnalyzed :: bool where
  "default_isAnalyzed = False"

text \<open>
  \<open>create\<close>. \<open>ytdl(url).pipe(...)\<close> answers the write stream, not a promise, so the \<open>await\<close> does
  not wait for the download: the handler starts it, calls \<open>parseClips\<close> and goes on.
\<close>

definition gameplayRouter_create ::
  "world \<Rightarrow> User \<Rightarrow> string \<times> GameplayTypes \<Rightarrow> prisma \<Rightarrow> (error + Gameplay) \<times> prisma" where
  "gameplayRouter_create w u input s =
    (case input of (youtubeUrl', gameplayType') \<Rightarrow>
      (case find (\<lambda>g. gameplay_youtubeUrl g = youtubeUrl') (gameplay_rows s) of
         Some existingGameplay \<Rightarrow>
           (Inl (TRPCError BAD_REQUEST
                  (Some ''This youtube url has already been submitted.'') None), s)
       | None \<Rightarrow>
           (let s1 = s\<lparr>web_effects := web_effects s @ [GetInfo youtubeUrl']\<rparr>
            in case getInfo w youtubeUrl' of
                 Inl m \<Rightarrow> (Inl (YtdlError m), s1)
               | Inr formats \<Rightarrow>
                   (let defaultFormat =
                          (case find (\<lambda>itag. itag = 299) formats of
                             Some f \<Rightarrow> Some f
                           | None \<Rightarrow> find (\<lambda>itag. itag = 298) formats);
                        lowFormat =
                          (if find (\<lambda>itag. itag = 136) formats \<noteq> None
                           then Some 136 else None);
                        footageId = cuid w;
                        file = footageId @ ''.mp4'';
                        s2 = s1\<lparr>web_effects := web_effects s1 @
                               [Download youtubeUrl' file, ParseClips footageId file]\<rparr>
                    in if defaultFormat = None \<and> lowFormat = None
                       then (Inl (TRPCError BAD_REQUEST
                              (Some ''URL does not provide an acceptable video format.'')
                              None), s2)
                       else
                         (let row = \<lparr>gameplay_id = row_id w, userId = user_id u,
                                     gameplay_youtubeUrl = youtubeUrl',
                                     gameplayType = gameplayType',
                                     gameplay_isAnalyzed = default_isAnalyzed,
                                     videoFormat =
                                       (case defaultFormat of
                                          Some f \<Rightarrow> Some f
                                        | None \<Rightarrow> lowFormat)\<rparr>
                          in (Inr row, s2\<lparr>gameplay_rows := gameplay_rows s2 @ [row]\<rparr>))))))"

text \<open>
  \<open>update\<close> and \<open>delete\<close> run inside \<open>try\<close>: whatever the body throws, the \<open>UNAUTHORIZED\<close>
  error included, the \<open>catch\<close> re-throws as \<open>INTERNAL_SERVER_ERROR\<close> with the thrown error as
  its cause.
\<close>

definition internal :: "error \<Rightarrow> error" where
  "internal cause =
    TRPCError INTERNAL_SERVER_ERROR (Some ''An error occurred in the server'') (Some cause)"

definition gameplayRouter_update ::
  "User \<Rightarrow> string \<times> GameplayTypes \<times> bool \<Rightarrow> prisma \<Rightarrow> (error + Gameplay) \<times> prisma" where
  "gameplayRouter_update u input s =
    (case input of (gameplayId, gameplayType', isAnalyzed') \<Rightarrow>
      (case find (\<lambda>g. gameplay_id g = gameplayId) (gameplay_rows s) of
         None \<Rightarrow> (Inl (internal NotFoundError), s)
       | Some gameplay \<Rightarrow>
           (let requiredPerms =
                  (if gameplay_isAnalyzed gameplay = isAnalyzed' then isOwner else roleMod)
            in if \<not> hasPerms (user_id u) (role u) (userId gameplay) requiredPerms
                       (blacklisted u)
               then (Inl (internal (TRPCError UNAUTHORIZED None None)), s)
               else
                 (let data = (\<lambda>g. g\<lparr>gameplay_isAnalyzed := isAnalyzed',
                                      gameplayType := gameplayType'\<rparr>)
                  in (Inr (data gameplay),
                      s\<lparr>gameplay_rows :=
                          update_first (\<lambda>g. gameplay_id g = gameplayId) data
                            (gameplay_rows s)\<rparr>)))))"

text \<open>
  Modelled from the spec: what \<open>prisma.gameplay.delete\<close> does to the rows that refer to the
  deleted one (the Prisma schema, which would give the relations' referential actions, is
  not among the sources). The spec assumes no store-level cascade: the gameplay row with
  the given id is removed, and the vote and clip rows stay.
\<close>

definition prisma_gameplay_delete :: "string \<Rightarrow> prisma \<Rightarrow> prisma" where
  "prisma_gameplay_delete gameplayId s =
    s\<lparr>gameplay_rows := remove_first (\<lambda>g. gameplay_id g = gameplayId) (gameplay_rows s)\<rparr>"

text \<open>
  \<open>delete\<close>: \<open>findUniqueOrThrow\<close>, the permission check, then the one
  \<open>prisma.gameplay.delete\<close>; the handler answers nothing.
\<close>

definition gameplayRouter_delete ::
  "User \<Rightarrow> string \<Rightarrow> prisma \<Rightarrow> (error + unit) \<times> prisma" where
  "gameplayRouter_delete u gameplayId s =
    (case find (\<lambda>g. gameplay_id g = gameplayId) (gameplay_rows s) of
       None \<Rightarrow> (Inl (internal NotFoundError), s)
     | Some gameplay \<Rightarrow>
         if \<not> hasPerms (user_id u) (role u) (userId gameplay) isOwner (blacklisted u)
         then (Inl (internal (TRPCError UNAUTHORIZED None None)), s)
         else (Inr (), prisma_gameplay_delete gameplayId s))"

text \<open>
  Modelled from the spec: what \<open>prisma.gameplayVotes.create\<close> checks (the Prisma schema, which
  would give the constraints of the vote table, is not among the sources). Section 4.4 of the
  spec has the vote created unconditionally, with no uniqueness constraint at the data layer:
  the row is appended.
\<close>

definition prisma_gameplayVotes_create :: "GameplayVotes \<Rightarrow> prisma \<Rightarrow> prisma" where
  "prisma_gameplayVotes_create v s = s\<lparr>gameplayVotes_rows := gameplayVotes_rows s @ [v]\<rparr>"

text \<open>
  \<open>review\<close>. A session user without an id gets the message \<open>No user\<close>. \<open>create\<close> answers the
  created row, which is never falsy, so the \<open>NOT_FOUND\<close> branch after it is never taken.
\<close>

definition gameplayRouter_review ::
  "world \<Rightarrow> User \<Rightarrow> string \<times> bool \<times> GameplayTypes \<Rightarrow> prisma \<Rightarrow> (error + string) \<times> prisma" where
  "gameplayRouter_review w u input s =
    (case input of (gameplayId, isGame, actualGame) \<Rightarrow>
      if user_id u = []
      then (Inr ''No user'', s)
      else
        (let footageVote = \<lparr>vote_id = row_id w, vote_gameplayId = gameplayId,
                             vote_isGame = isGame, vote_actualGame = actualGame,
                             vote_userId = user_id u\<rparr>
         in (Inr ''Updated the gameplay document successfully.'',
             prisma_gameplayVotes_create footageVote s)))"

text \<open>
  \<open>getReviewItems\<close>. The three values \<open>Math.random()\<close> returns, in the order the handler
  draws them (sort key, sort direction, skip), are an argument; each is a number \<open>r\<close> with
  \<open>0 \<le> r < 1\<close>, and the product under \<open>Math.floor\<close> is taken exactly. An index outside the
  array reads \<open>undefined\<close> (\<open>None\<close>), which the store rejects as a sort key or direction.
  The skip is the floor of a product below the number of rows, an integer the store takes
  as it is. Strings are ordered character by character; the store's collation may order them
  otherwise, and no property below depends on the order.
\<close>

definition randomPick :: "rat \<Rightarrow> 'a list \<Rightarrow> 'a option" where
  "randomPick r values =
    (let index = \<lfloor>r * of_nat (length values)\<rfloor>
     in if 0 \<le> index \<and> index < int (length values) then Some (values ! nat index) else None)"

definition tenDocs :: "rat \<Rightarrow> int \<Rightarrow> int" where
  "tenDocs r itemCount = \<lfloor>r * of_int (itemCount - 1 + 1)\<rfloor>"

definition order_key :: "string \<Rightarrow> (Gameplay \<Rightarrow> string) option" where
  "order_key k =
    (if k = ''userId'' then Some userId
     else if k = ''id'' then Some gameplay_id
     else if k = ''youtubeUrl'' then Some gameplay_youtubeUrl
     else None)"

definition ordered :: "string option \<Rightarrow> string option \<Rightarrow> Gameplay list \<Rightarrow> error + Gameplay list" where
  "ordered orderBy orderDir rows =
    (case (orderBy, orderDir) of
       (Some k, Some d) \<Rightarrow>
         (case order_key k of
            None \<Rightarrow> Inl PrismaValidationError
          | Some key \<Rightarrow>
              if d = ''asc'' then Inr (sort_key key rows)
              else if d = ''desc'' then Inr (rev (sort_key key rows))
              else Inl PrismaValidationError)
     | _ \<Rightarrow> Inl PrismaValidationError)"

text \<open>\<open>gameplayVotes: { none: { userId } }\<close>: no vote on the row is the caller's.\<close>

definition unvoted :: "prisma \<Rightarrow> string \<Rightarrow> Gameplay \<Rightarrow> bool" where
  "unvoted s uid g =
    (\<not> list_ex (\<lambda>v. vote_gameplayId v = gameplay_id g \<and> vote_userId v = uid)
          (gameplayVotes_rows s))"

record ReviewItemsGameplay =
  review_gameplay :: Gameplay
  review_user :: "User option"
  review_gameplayVotes :: "GameplayVotes list"

definition gameplayRouter_getReviewItems ::
  "rat \<times> rat \<times> rat \<Rightarrow> User \<Rightarrow> unit \<Rightarrow> prisma \<Rightarrow> error + ReviewItemsGameplay" where
  "gameplayRouter_getReviewItems random u input s =
    (case random of (r1, r2, r3) \<Rightarrow>
      (let itemCount = int (length (gameplay_rows s));
           orderBy = randomPick r1 [''userId'', ''id'', ''youtubeUrl''];
           orderDir = randomPick r2 [''desc'', ''asc'']
       in case ordered orderBy orderDir (filter (unvoted s (user_id u)) (gameplay_rows s)) of
            Inl e \<Rightarrow> Inl e
          | Inr rows \<Rightarrow>
              (case findMany 1 (tenDocs r3 itemCount) rows of
                 Inl e \<Rightarrow> Inl e
               | Inr [] \<Rightarrow> Inl (TRPCError NOT_FOUND None None)
               | Inr (g # rest) \<Rightarrow>
                   Inr \<lparr>review_gameplay = g,
                        review_user = find (\<lambda>x. user_id x = userId g) (user_rows s),
                        review_gameplayVotes =
                          filter (\<lambda>v. vote_gameplayId v = gameplay_id g)
                            (gameplayVotes_rows s)\<rparr>)))"

section \<open>Example stores and worlds\<close>

text \<open>
  Concrete stores, users and collaborator answers on which the properties below are
  exercised. The identifiers have the shapes the input schemas ask for: uuids on the HTTP
  API, cuids on the RPC layer.
\<close>

definition uuid_1 :: string where
  "uuid_1 = ''3f2b1c4d-5e6f-4a7b-8c9d-0e1f2a3b4c5d''"

definition uuid_2 :: string where
  "uuid_2 = ''9a8b7c6d-5e4f-4321-8fed-cba987654321''"

definition url_a :: string where
  "url_a = ''https://www.youtube.com/watch?v=aaaaaaaaaaa''"

definition url_b :: string where
  "url_b = ''https://www.youtube.com/watch?v=bbbbbbbbbbb''"

definition footage_a :: Footage where
  "footage_a = \<lparr>uuid = uuid_1, discordId = ''424242424242424242'', username = ''ann'',
     youtubeUrl = url_a, isCsgoFootage = False, isAnalyzed = False\<rparr>"

definition clip_a :: Clip where
  "clip_a = \<lparr>clip_id = ''c1'', footage = uuid_1\<rparr>"

definition backend_1 :: backend where
  "backend_1 = \<lparr>Footage_docs = [footage_a], Clip_docs = [clip_a], backend_effects = []\<rparr>"

definition cuid_g1 :: string where
  "cuid_g1 = ''cjld2cjxh0000qzrmn831i7rn''"

definition cuid_g2 :: string where
  "cuid_g2 = ''cjld2cyuq0001t3rmniod1foy''"

definition cuid_file :: string where
  "cuid_file = ''cjld2cjxh0002qzrmn831i7rp''"

definition world_1 :: world where
  "world_1 = \<lparr>uuidv4 = uuid_2, cuid = cuid_file, row_id = cuid_g2,
     getInfo = (\<lambda>url. Inr [18, 136, 299]), writer_finishes = True,
     child_close = Some 0\<rparr>"

definition world_low :: world where
  "world_low = world_1\<lparr>getInfo := (\<lambda>url. Inr [18, 22])\<rparr>"

definition world_2 :: world where
  "world_2 = world_1\<lparr>row_id := ''cjld2cjxh0003qzrmn831i7rq''\<rparr>"

definition ann :: User where
  "ann = \<lparr>user_id = ''ckuser000000000000000ann'', user_name = Some ''ann'', role = USER,
     blacklisted = False\<rparr>"

definition bob :: User where
  "bob = \<lparr>user_id = ''ckuser000000000000000bob'', user_name = Some ''bob'', role = MOD,
     blacklisted = False\<rparr>"

definition eve :: User where
  "eve = \<lparr>user_id = ''ckuser000000000000000eve'', user_name = None, role = ADMIN,
     blacklisted = True\<rparr>"

definition gameplay_a :: Gameplay where
  "gameplay_a = \<lparr>gameplay_id = cuid_g1, userId = user_id ann,
     gameplay_youtubeUrl = url_a, gameplayType = VAL,
     gameplay_isAnalyzed = False, videoFormat = Some 299\<rparr>"

definition vote_b :: GameplayVotes where
  "vote_b = \<lparr>vote_id = ''cjld2cjxh0004qzrmn831i7rr'', vote_gameplayId = cuid_g1,
     vote_isGame = True, vote_actualGame = VAL, vote_userId = user_id bob\<rparr>"

definition segment_a :: Segment where
  "segment_a = \<lparr>segment_id = ''cjld2cjxh0005qzrmn831i7rs'', segment_gameplayId = cuid_g1\<rparr>"

definition prisma_1 :: prisma where
  "prisma_1 = \<lparr>gameplay_rows = [gameplay_a], gameplayVotes_rows = [vote_b],
     segment_rows = [segment_a], user_rows = [ann, bob, eve], web_effects = []\<rparr>"

definition prisma_0 :: prisma where
  "prisma_0 = \<lparr>gameplay_rows = [], gameplayVotes_rows = [], segment_rows = [],
     user_rows = [ann, bob, eve], web_effects = []\<rparr>"



section \<open>Lemmas about the store operations\<close>

lemmas example_defs =
  uuid_1_def uuid_2_def url_a_def url_b_def footage_a_def clip_a_def backend_1_def
  cuid_g1_def cuid_g2_def cuid_file_def world_1_def world_low_def world_2_def
  ann_def bob_def eve_def gameplay_a_def vote_b_def segment_a_def prisma_1_def prisma_0_def

lemma find_Some_ex: "(\<exists>x\<in>set xs. p x) \<Longrightarrow> \<exists>y. find p xs = Some y"
  by (induction xs) auto

lemma find_None_eq: "find (\<lambda>x. x = a) xs = None \<longleftrightarrow> a \<notin> set xs"
  by (induction xs) auto

lemma find_update_first:
  "find p xs = Some x \<Longrightarrow> p (f x) \<Longrightarrow> find p (update_first p f xs) = Some (f x)"
  by (induction xs) (auto split: if_splits)

lemma remove_first_split:
  "find p xs = Some d \<Longrightarrow>
    \<exists>pre post. xs = pre @ d # post \<and> (\<forall>x \<in> set pre. \<not> p x) \<and> remove_first p xs = pre @ post"
proof (induction xs)
  case Nil
  then show ?case by simp
next
  case (Cons a xs)
  show ?case
  proof (cases "p a")
    case True
    with Cons.prems have "a = d" by simp
    with True show ?thesis by (intro exI [of _ "[]"] exI [of _ xs]) simp
  next
    case False
    with Cons.prems have "find p xs = Some d" by simp
    from Cons.IH [OF this] obtain pre post where
      "xs = pre @ d # post" "\<forall>x \<in> set pre. \<not> p x" "remove_first p xs = pre @ post"
      by blast
    with False show ?thesis
      by (intro exI [of _ "a # pre"] exI [of _ post]) simp
  qed
qed

lemma singleton_split: "[x] = pre @ y # post \<Longrightarrow> pre = [] \<and> post = []"
  by (cases pre) auto

text \<open>
  With formats that carry none of the three itags, \<open>create\<close> throws only after it has started
  the download and called \<open>parseClips\<close>.
\<close>

lemma create_unacceptable_after_download:
  assumes "find (\<lambda>g. gameplay_youtubeUrl g = url) (gameplay_rows s) = None"
    and "getInfo w url = Inr formats"
    and "299 \<notin> set formats" and "298 \<notin> set formats" and "136 \<notin> set formats"
  shows "gameplayRouter_create w u (url, t) s =
    (Inl (TRPCError BAD_REQUEST (Some ''URL does not provide an acceptable video format.'')
           None),
     s\<lparr>web_effects := web_effects s @
         [GetInfo url, Download url (cuid w @ ''.mp4''),
          ParseClips (cuid w) (cuid w @ ''.mp4'')]\<rparr>)"
proof -
  have f: "find (\<lambda>itag. itag = 299) formats = None" "find (\<lambda>itag. itag = 298) formats = None"
    "find (\<lambda>itag. itag = 136) formats = None"
    using assms(3-5) by (simp_all add: find_None_eq)
  show ?thesis
    using assms(1,2) f by (simp add: gameplayRouter_create_def Let_def)
qed

text \<open>The random draws of \<open>getReviewItems\<close> stay inside their arrays.\<close>

lemma randomPick_3:
  assumes "0 \<le> r" and "r < 1"
  shows "randomPick r [a, b, c] \<in> {Some a, Some b, Some c}"
proof -
  have lo: "0 \<le> \<lfloor>r * 3\<rfloor>" using assms(1) by simp
  have "r * 3 < 3" using assms(2) by simp
  then have hi: "\<lfloor>r * 3\<rfloor> < 3" by (simp add: floor_less_iff)
  from lo hi have "nat \<lfloor>r * 3\<rfloor> = 0 \<or> nat \<lfloor>r * 3\<rfloor> = 1 \<or> nat \<lfloor>r * 3\<rfloor> = 2" by linarith
  then show ?thesis using lo hi by (auto simp: randomPick_def)
qed

lemma randomPick_2:
  assumes "0 \<le> r" and "r < 1"
  shows "randomPick r [a, b] \<in> {Some a, Some b}"
proof -
  have lo: "0 \<le> \<lfloor>r * 2\<rfloor>" using assms(1) by simp
  have "r * 2 < 2" using assms(2) by simp
  then have hi: "\<lfloor>r * 2\<rfloor> < 2" by (simp add: floor_less_iff)
  from lo hi have "nat \<lfloor>r * 2\<rfloor> = 0 \<or> nat \<lfloor>r * 2\<rfloor> = 1" by linarith
  then show ?thesis using lo hi by (auto simp: randomPick_def)
qed

lemma tenDocs_nonneg: "0 \<le> r \<Longrightarrow> 0 \<le> n \<Longrightarrow> 0 \<le> tenDocs r n"
  by (simp add: tenDocs_def)

lemma ordered_set: "ordered k d rows = Inr out \<Longrightarrow> set out = set rows"
  by (auto simp: ordered_def split: option.splits if_splits)

lemma ordered_Nil:
  assumes "0 \<le> r1" "r1 < 1" "0 \<le> r2" "r2 < 1"
  shows "ordered (randomPick r1 [''userId'', ''id'', ''youtubeUrl''])
           (randomPick r2 [''desc'', ''asc'']) [] = Inr []"
proof -
  have "randomPick r1 [''userId'', ''id'', ''youtubeUrl'']
          \<in> {Some ''userId'', Some ''id'', Some ''youtubeUrl''}"
    using assms(1,2) by (rule randomPick_3)
  moreover have "randomPick r2 [''desc'', ''asc''] \<in> {Some ''desc'', Some ''asc''}"
    using assms(3,4) by (rule randomPick_2)
  ultimately show ?thesis by (auto simp: ordered_def order_key_def)
qed












section \<open>Properties\<close>

text \<open>
  C1: when the submitted URL is already in the record store, ingestion fails with the
  duplicate-submission error (status 400 on the HTTP API, \<open>BAD_REQUEST\<close> on the RPC layer)
  and the state comes back as it was: the lookup by URL is the first step, so no metadata
  request, no download and no extractor run are added to the effects. On the RPC layer this
  holds for the handler and for the protected procedure of every caller the middleware lets
  through.
\<close>

theorem C1_duplicate_rejected:
  "((\<exists>d \<in> set (Footage_docs b). youtubeUrl d = url) \<longrightarrow>
      createFootage w (i, n, url) b =
        (Some (Inl (HttpError 400 (''URL '' @ url @ '' has already been submitted.''))), b))
   \<and> ((\<exists>g \<in> set (gameplay_rows s). gameplay_youtubeUrl g = url) \<longrightarrow>
      gameplayRouter_create w u (url, t) s =
        (Inl (TRPCError BAD_REQUEST (Some ''This youtube url has already been submitted.'')
               None), s))
   \<and> ((\<exists>g \<in> set (gameplay_rows s). gameplay_youtubeUrl g = url) \<and> isAuthed ctx = Inr u \<longrightarrow>
      protectedProcedure (gameplayRouter_create w) ctx (url, t) s =
        (Inl (TRPCError BAD_REQUEST (Some ''This youtube url has already been submitted.'')
               None), s))"
proof -
  have http: "createFootage w (i, n, url) b =
        (Some (Inl (HttpError 400 (''URL '' @ url @ '' has already been submitted.''))), b)"
    if "\<exists>d \<in> set (Footage_docs b). youtubeUrl d = url"
  proof -
    from that obtain y where "find (\<lambda>d. youtubeUrl d = url) (Footage_docs b) = Some y"
      using find_Some_ex [of "Footage_docs b" "\<lambda>d. youtubeUrl d = url"] by blast
    then show ?thesis by (simp add: createFootage_def findOne_def)
  qed
  have rpc: "gameplayRouter_create w u (url, t) s =
        (Inl (TRPCError BAD_REQUEST (Some ''This youtube url has already been submitted.'')
               None), s)"
    if "\<exists>g \<in> set (gameplay_rows s). gameplay_youtubeUrl g = url"
  proof -
    from that obtain y where "find (\<lambda>g. gameplay_youtubeUrl g = url) (gameplay_rows s) = Some y"
      using find_Some_ex [of "gameplay_rows s" "\<lambda>g. gameplay_youtubeUrl g = url"] by blast
    then show ?thesis by (simp add: gameplayRouter_create_def)
  qed
  have procedure: "protectedProcedure (gameplayRouter_create w) ctx (url, t) s =
        (Inl (TRPCError BAD_REQUEST (Some ''This youtube url has already been submitted.'')
               None), s)"
    if "\<exists>g \<in> set (gameplay_rows s). gameplay_youtubeUrl g = url" and "isAuthed ctx = Inr u"
    using rpc [OF that(1)] that(2) by (simp add: protectedProcedure_def)
  show ?thesis using http rpc procedure by blast
qed

theorem C1_witness:
  "createFootage world_1 (''424242424242424242'', ''ann'', url_a) backend_1 =
     (Some (Inl (HttpError 400 (''URL '' @ url_a @ '' has already been submitted.''))),
      backend_1)
   \<and> gameplayRouter_create world_1 bob (url_a, CSG) prisma_1 =
     (Inl (TRPCError BAD_REQUEST (Some ''This youtube url has already been submitted.'')
            None), prisma_1)
   \<and> protectedProcedure (gameplayRouter_create world_1) \<lparr>session = Some \<lparr>user = Some bob\<rparr>\<rparr>
        (url_a, CSG) prisma_1 =
     (Inl (TRPCError BAD_REQUEST (Some ''This youtube url has already been submitted.'')
            None), prisma_1)"
  using C1_duplicate_rejected [where b = backend_1 and url = url_a
      and w = world_1 and i = "''424242424242424242''" and n = "''ann''" and s = prisma_1
      and u = bob and t = CSG and ctx = "\<lparr>session = Some \<lparr>user = Some bob\<rparr>\<rparr>"]
  by (simp add: isAuthed_def example_defs)

text \<open>
  C2, as far as the code goes: when the formats the resolver lists carry none of the itags
  299, 298 and 136, \<open>create\<close> on the RPC layer fails with \<open>BAD_REQUEST\<close> (unacceptable
  format) and persists no row, but by then the download into the local file and the clip
  extraction have been started. Evaluated at a resolver answer with the itags 18 and 22.
\<close>

theorem C2_download_before_format_check:
  "gameplayRouter_create world_low ann (url_b, VAL) prisma_1 =
    (Inl (TRPCError BAD_REQUEST (Some ''URL does not provide an acceptable video format.'')
           None),
     prisma_1\<lparr>web_effects :=
         [GetInfo url_b, Download url_b (cuid_file @ ''.mp4''),
          ParseClips cuid_file (cuid_file @ ''.mp4'')]\<rparr>)"
  using create_unacceptable_after_download [of url_b prisma_1 world_low "[18, 22]" ann VAL]
  by (simp add: example_defs)

text \<open>
  C3, as amended: on the RPC layer an update that changes the analysis flag of an existing
  row takes effect only when \<open>hasPerms\<close> grants the caller the level \<open>roleMod\<close>: when it does
  not, the procedure fails and the store is unchanged; when it does, the update succeeds and
  the stored row carries the new flag. The HTTP API has no caller and no permission check:
  \<open>updateFootage\<close> writes the new flag into the first document with the given uuid, whoever
  asks.
\<close>

theorem C3_flag_update_permission:
  assumes "find (\<lambda>g. gameplay_id g = gid) (gameplay_rows s) = Some g"
    and "gameplay_isAnalyzed g \<noteq> a"
    and "find (\<lambda>d. uuid d = x) (Footage_docs b) = Some d"
  shows "(\<not> hasPerms (user_id u) (role u) (userId g) roleMod (blacklisted u) \<longrightarrow>
            isl (fst (gameplayRouter_update u (gid, t, a) s))
            \<and> snd (gameplayRouter_update u (gid, t, a) s) = s)
    \<and> (hasPerms (user_id u) (role u) (userId g) roleMod (blacklisted u) \<longrightarrow>
            fst (gameplayRouter_update u (gid, t, a) s) =
              Inr (g\<lparr>gameplay_isAnalyzed := a, gameplayType := t\<rparr>)
            \<and> find (\<lambda>g. gameplay_id g = gid)
                 (gameplay_rows (snd (gameplayRouter_update u (gid, t, a) s))) =
               Some (g\<lparr>gameplay_isAnalyzed := a, gameplayType := t\<rparr>))
    \<and> fst (updateFootage (x, a, c) b) = Inr d
    \<and> find (\<lambda>d. uuid d = x) (Footage_docs (snd (updateFootage (x, a, c) b))) =
         Some (d\<lparr>isAnalyzed := a, isCsgoFootage := c\<rparr>)"
proof -
  have idg: "gameplay_id g = gid" using assms(1) by (auto simp: find_Some_iff)
  have idd: "uuid d = x" using assms(3) by (auto simp: find_Some_iff)
  have deny: "isl (fst (gameplayRouter_update u (gid, t, a) s))
            \<and> snd (gameplayRouter_update u (gid, t, a) s) = s"
    if "\<not> hasPerms (user_id u) (role u) (userId g) roleMod (blacklisted u)"
    using that assms(1,2) by (simp add: gameplayRouter_update_def Let_def)
  have allow: "fst (gameplayRouter_update u (gid, t, a) s) =
              Inr (g\<lparr>gameplay_isAnalyzed := a, gameplayType := t\<rparr>)
            \<and> find (\<lambda>g. gameplay_id g = gid)
                 (gameplay_rows (snd (gameplayRouter_update u (gid, t, a) s))) =
               Some (g\<lparr>gameplay_isAnalyzed := a, gameplayType := t\<rparr>)"
    if "hasPerms (user_id u) (role u) (userId g) roleMod (blacklisted u)"
  proof -
    have "find (\<lambda>g. gameplay_id g = gid)
        (update_first (\<lambda>g. gameplay_id g = gid)
          (\<lambda>g. g\<lparr>gameplay_isAnalyzed := a, gameplayType := t\<rparr>) (gameplay_rows s)) =
        Some (g\<lparr>gameplay_isAnalyzed := a, gameplayType := t\<rparr>)"
      using assms(1) idg by (intro find_update_first) simp_all
    then show ?thesis
      using that assms(1,2) by (simp add: gameplayRouter_update_def Let_def)
  qed
  have http: "fst (updateFootage (x, a, c) b) = Inr d
    \<and> find (\<lambda>d. uuid d = x) (Footage_docs (snd (updateFootage (x, a, c) b))) =
         Some (d\<lparr>isAnalyzed := a, isCsgoFootage := c\<rparr>)"
  proof -
    have "find (\<lambda>d. uuid d = x)
        (update_first (\<lambda>d. uuid d = x) (\<lambda>d. d\<lparr>isAnalyzed := a, isCsgoFootage := c\<rparr>)
          (Footage_docs b)) = Some (d\<lparr>isAnalyzed := a, isCsgoFootage := c\<rparr>)"
      using assms(3) idd by (intro find_update_first) simp_all
    then show ?thesis using assms(3) by (simp add: updateFootage_def findOneAndUpdate_def)
  qed
  show ?thesis using deny allow http by blast
qed

theorem C3_witness:
  "isl (fst (gameplayRouter_update ann (cuid_g1, VAL, True) prisma_1))
   \<and> snd (gameplayRouter_update ann (cuid_g1, VAL, True) prisma_1) = prisma_1
   \<and> fst (gameplayRouter_update bob (cuid_g1, VAL, True) prisma_1) =
       Inr (gameplay_a\<lparr>gameplay_isAnalyzed := True\<rparr>)
   \<and> gameplay_rows (snd (gameplayRouter_update bob (cuid_g1, VAL, True) prisma_1)) =
       [gameplay_a\<lparr>gameplay_isAnalyzed := True\<rparr>]
   \<and> Footage_docs (snd (updateFootage (uuid_1, True, False) backend_1)) =
       [footage_a\<lparr>isAnalyzed := True\<rparr>]"
proof -
  have g: "find (\<lambda>g. gameplay_id g = cuid_g1) (gameplay_rows prisma_1) = Some gameplay_a"
    by (simp add: prisma_1_def gameplay_a_def)
  have n: "gameplay_isAnalyzed gameplay_a \<noteq> True" by (simp add: gameplay_a_def)
  have d: "find (\<lambda>d. uuid d = uuid_1) (Footage_docs backend_1) = Some footage_a"
    by (simp add: backend_1_def footage_a_def)
  have 1: "isl (fst (gameplayRouter_update ann (cuid_g1, VAL, True) prisma_1))
   \<and> snd (gameplayRouter_update ann (cuid_g1, VAL, True) prisma_1) = prisma_1"
    using C3_flag_update_permission [OF g n d, of ann VAL False]
    by (simp add: hasPerms_def ann_def)
  have 2: "fst (gameplayRouter_update bob (cuid_g1, VAL, True) prisma_1) =
       Inr (gameplay_a\<lparr>gameplay_isAnalyzed := True\<rparr>)"
    using C3_flag_update_permission [OF g n d, of bob VAL False]
    by (simp add: hasPerms_def bob_def gameplay_a_def)
  have 3: "gameplay_rows (snd (gameplayRouter_update bob (cuid_g1, VAL, True) prisma_1)) =
       [gameplay_a\<lparr>gameplay_isAnalyzed := True\<rparr>]"
    by (simp add: gameplayRouter_update_def hasPerms_def prisma_1_def gameplay_a_def bob_def)
  have 4: "Footage_docs (snd (updateFootage (uuid_1, True, False) backend_1)) =
       [footage_a\<lparr>isAnalyzed := True\<rparr>]"
    by (simp add: updateFootage_def findOneAndUpdate_def backend_1_def footage_a_def)
  show ?thesis using 1 2 3 4 by simp
qed

text \<open>
  The claim C3 as stated fails: on the HTTP API the update of the flag succeeds with no
  permission asked, and on the RPC layer the ordinary user's update is refused with
  \<open>INTERNAL_SERVER_ERROR\<close>, the \<open>UNAUTHORIZED\<close> error being only its cause.
\<close>

theorem C3_counterexample:
  "fst (updateFootage (uuid_1, True, False) backend_1) = Inr footage_a
   \<and> Footage_docs (snd (updateFootage (uuid_1, True, False) backend_1)) =
       [footage_a\<lparr>isAnalyzed := True\<rparr>]
   \<and> isAnalyzed footage_a = False
   \<and> role ann = USER
   \<and> gameplayRouter_update ann (cuid_g1, VAL, True) prisma_1 =
       (Inl (TRPCError INTERNAL_SERVER_ERROR (Some ''An error occurred in the server'')
              (Some (TRPCError UNAUTHORIZED None None))), prisma_1)"
  by (simp add: updateFootage_def findOneAndUpdate_def gameplayRouter_update_def hasPerms_def
      internal_def backend_1_def footage_a_def prisma_1_def gameplay_a_def ann_def)

text \<open>
  C4, as amended: deleting a footage record removes that record alone. The delete operation
  issues no secondary delete: on the HTTP API the clip documents are left as they were; on
  the RPC layer the handler's whole effect on the store is the one delete of the gameplay
  row, or nothing, so that (with no cascade in the store) the vote rows and the clip rows
  are left as they were, those of the deleted record included.
\<close>

theorem C4_delete_removes_parent_only:
  "Clip_docs (snd (deleteFootage x b)) = Clip_docs b
   \<and> (find (\<lambda>d. uuid d = x) (Footage_docs b) = Some d \<longrightarrow>
        fst (deleteFootage x b) = Inr ''Footage deleted successfully.''
        \<and> (\<exists>pre post. Footage_docs b = pre @ d # post
              \<and> Footage_docs (snd (deleteFootage x b)) = pre @ post))
   \<and> (snd (gameplayRouter_delete u gid s) = s
        \<or> snd (gameplayRouter_delete u gid s) = prisma_gameplay_delete gid s)
   \<and> gameplayVotes_rows (snd (gameplayRouter_delete u gid s)) = gameplayVotes_rows s
   \<and> segment_rows (snd (gameplayRouter_delete u gid s)) = segment_rows s
   \<and> (find (\<lambda>g. gameplay_id g = gid) (gameplay_rows s) = Some g
        \<and> hasPerms (user_id u) (role u) (userId g) isOwner (blacklisted u) \<longrightarrow>
        fst (gameplayRouter_delete u gid s) = Inr ()
        \<and> (\<exists>pre post. gameplay_rows s = pre @ g # post
              \<and> gameplay_rows (snd (gameplayRouter_delete u gid s)) = pre @ post))"
proof (intro conjI impI)
  show "Clip_docs (snd (deleteFootage x b)) = Clip_docs b"
    by (simp add: deleteFootage_def deleteOne_def)
  show "snd (gameplayRouter_delete u gid s) = s
        \<or> snd (gameplayRouter_delete u gid s) = prisma_gameplay_delete gid s"
    by (simp add: gameplayRouter_delete_def split: option.splits)
  show "gameplayVotes_rows (snd (gameplayRouter_delete u gid s)) = gameplayVotes_rows s"
    by (simp add: gameplayRouter_delete_def prisma_gameplay_delete_def split: option.splits)
  show "segment_rows (snd (gameplayRouter_delete u gid s)) = segment_rows s"
    by (simp add: gameplayRouter_delete_def prisma_gameplay_delete_def split: option.splits)
next
  assume f: "find (\<lambda>d. uuid d = x) (Footage_docs b) = Some d"
  then show "fst (deleteFootage x b) = Inr ''Footage deleted successfully.''"
    by (simp add: deleteFootage_def deleteOne_def)
  from remove_first_split [OF f] obtain pre post where
    "Footage_docs b = pre @ d # post"
    "remove_first (\<lambda>d. uuid d = x) (Footage_docs b) = pre @ post" by blast
  with f show "\<exists>pre post. Footage_docs b = pre @ d # post
              \<and> Footage_docs (snd (deleteFootage x b)) = pre @ post"
    by (simp add: deleteFootage_def deleteOne_def) blast
next
  assume a: "find (\<lambda>g. gameplay_id g = gid) (gameplay_rows s) = Some g
        \<and> hasPerms (user_id u) (role u) (userId g) isOwner (blacklisted u)"
  then show "fst (gameplayRouter_delete u gid s) = Inr ()"
    by (simp add: gameplayRouter_delete_def)
  from a have f: "find (\<lambda>g. gameplay_id g = gid) (gameplay_rows s) = Some g" by simp
  from remove_first_split [OF f] obtain pre post where
    "gameplay_rows s = pre @ g # post"
    "remove_first (\<lambda>g. gameplay_id g = gid) (gameplay_rows s) = pre @ post" by blast
  with a show "\<exists>pre post. gameplay_rows s = pre @ g # post
              \<and> gameplay_rows (snd (gameplayRouter_delete u gid s)) = pre @ post"
    by (simp add: gameplayRouter_delete_def prisma_gameplay_delete_def) blast
qed

theorem C4_witness:
  "Clip_docs (snd (deleteFootage uuid_1 backend_1)) = [clip_a]
   \<and> fst (deleteFootage uuid_1 backend_1) = Inr ''Footage deleted successfully.''
   \<and> Footage_docs (snd (deleteFootage uuid_1 backend_1)) = []
   \<and> gameplayVotes_rows (snd (gameplayRouter_delete ann cuid_g1 prisma_1)) = [vote_b]
   \<and> segment_rows (snd (gameplayRouter_delete ann cuid_g1 prisma_1)) = [segment_a]
   \<and> fst (gameplayRouter_delete ann cuid_g1 prisma_1) = Inr ()
   \<and> gameplay_rows (snd (gameplayRouter_delete ann cuid_g1 prisma_1)) = []"
proof -
  have f: "find (\<lambda>d. uuid d = uuid_1) (Footage_docs backend_1) = Some footage_a"
    by (simp add: backend_1_def footage_a_def)
  have g: "find (\<lambda>g. gameplay_id g = cuid_g1) (gameplay_rows prisma_1) = Some gameplay_a
      \<and> hasPerms (user_id ann) (role ann) (userId gameplay_a) isOwner (blacklisted ann)"
    by (simp add: hasPerms_def prisma_1_def gameplay_a_def ann_def)
  from C4_delete_removes_parent_only [of uuid_1 backend_1 footage_a ann cuid_g1 prisma_1
      gameplay_a] f g
  have 1: "Clip_docs (snd (deleteFootage uuid_1 backend_1)) = Clip_docs backend_1"
    and 2: "fst (deleteFootage uuid_1 backend_1) = Inr ''Footage deleted successfully.''"
    and 3: "\<exists>pre post. Footage_docs backend_1 = pre @ footage_a # post
        \<and> Footage_docs (snd (deleteFootage uuid_1 backend_1)) = pre @ post"
    and 4: "gameplayVotes_rows (snd (gameplayRouter_delete ann cuid_g1 prisma_1)) =
        gameplayVotes_rows prisma_1"
    and 5: "segment_rows (snd (gameplayRouter_delete ann cuid_g1 prisma_1)) =
        segment_rows prisma_1"
    and 6: "fst (gameplayRouter_delete ann cuid_g1 prisma_1) = Inr ()"
    and 7: "\<exists>pre post. gameplay_rows prisma_1 = pre @ gameplay_a # post
        \<and> gameplay_rows (snd (gameplayRouter_delete ann cuid_g1 prisma_1)) = pre @ post"
    by blast+
  from 3 have gone: "Footage_docs (snd (deleteFootage uuid_1 backend_1)) = []"
    by (auto simp: backend_1_def dest: singleton_split)
  from 7 have removed: "gameplay_rows (snd (gameplayRouter_delete ann cuid_g1 prisma_1)) = []"
    by (auto simp: prisma_1_def dest: singleton_split)
  show ?thesis using 1 2 gone 4 5 6 removed by (simp add: backend_1_def prisma_1_def)
qed

text \<open>
  The claim C4 as stated fails: after the delete, the clip that refers to the deleted
  footage, and the vote and the clip row that refer to the deleted gameplay row, are still
  in the store.
\<close>

theorem C4_counterexample:
  "fst (deleteFootage uuid_1 backend_1) = Inr ''Footage deleted successfully.''
   \<and> Footage_docs (snd (deleteFootage uuid_1 backend_1)) = []
   \<and> Clip_docs (snd (deleteFootage uuid_1 backend_1)) = [clip_a]
   \<and> footage clip_a = uuid_1
   \<and> fst (gameplayRouter_delete ann cuid_g1 prisma_1) = Inr ()
   \<and> gameplay_rows (snd (gameplayRouter_delete ann cuid_g1 prisma_1)) = []
   \<and> gameplayVotes_rows (snd (gameplayRouter_delete ann cuid_g1 prisma_1)) = [vote_b]
   \<and> vote_gameplayId vote_b = cuid_g1
   \<and> segment_rows (snd (gameplayRouter_delete ann cuid_g1 prisma_1)) = [segment_a]
   \<and> segment_gameplayId segment_a = cuid_g1"
  by (simp add: deleteFootage_def deleteOne_def gameplayRouter_delete_def
      prisma_gameplay_delete_def hasPerms_def backend_1_def footage_a_def clip_a_def
      prisma_1_def gameplay_a_def vote_b_def segment_a_def ann_def)

text \<open>
  C5, as amended: the vote-submission operation makes no existence check. For every caller
  with a non-empty id it creates one more vote record for the pair of that caller and the
  given footage, whatever votes the pair already has, and leaves the footage rows alone.
\<close>

theorem C5_vote_created_unconditionally:
  assumes "user_id u \<noteq> []"
  shows "fst (gameplayRouter_review w u (g, b, t) s) =
      Inr ''Updated the gameplay document successfully.''
    \<and> snd (gameplayRouter_review w u (g, b, t) s) =
      prisma_gameplayVotes_create
        \<lparr>vote_id = row_id w, vote_gameplayId = g, vote_isGame = b, vote_actualGame = t,
         vote_userId = user_id u\<rparr> s
    \<and> length (filter (\<lambda>v. vote_userId v = user_id u \<and> vote_gameplayId v = g)
         (gameplayVotes_rows (snd (gameplayRouter_review w u (g, b, t) s)))) =
      Suc (length (filter (\<lambda>v. vote_userId v = user_id u \<and> vote_gameplayId v = g)
         (gameplayVotes_rows s)))
    \<and> gameplay_rows (snd (gameplayRouter_review w u (g, b, t) s)) = gameplay_rows s"
  using assms by (simp add: gameplayRouter_review_def prisma_gameplayVotes_create_def)

theorem C5_witness:
  "fst (gameplayRouter_review world_1 bob (cuid_g1, True, VAL) prisma_1) =
     Inr ''Updated the gameplay document successfully.''
   \<and> length (filter (\<lambda>v. vote_userId v = user_id bob \<and> vote_gameplayId v = cuid_g1)
        (gameplayVotes_rows
          (snd (gameplayRouter_review world_1 bob (cuid_g1, True, VAL) prisma_1)))) = 2"
  using C5_vote_created_unconditionally [of bob world_1 cuid_g1 True VAL prisma_1]
  by (simp add: prisma_gameplayVotes_create_def bob_def prisma_1_def vote_b_def)

text \<open>
  The claim C5 as stated fails: two submissions by the same user on the same footage leave
  two vote records of that user on that footage.
\<close>

theorem C5_counterexample:
  "map (\<lambda>v. (vote_userId v, vote_gameplayId v))
     (gameplayVotes_rows
       (snd (gameplayRouter_review world_2 ann (cuid_g1, False, CSG)
         (snd (gameplayRouter_review world_1 ann (cuid_g1, True, VAL) prisma_1))))) =
   [(user_id bob, cuid_g1), (user_id ann, cuid_g1), (user_id ann, cuid_g1)]"
  by (simp add: gameplayRouter_review_def prisma_gameplayVotes_create_def world_2_def
      world_1_def prisma_1_def vote_b_def ann_def)

text \<open>
  C6: a caller whose blacklist flag is set is denied whatever the caller's id and role, the
  owner of the resource and the required level are: the middleware of every protected
  procedure answers \<open>FORBIDDEN\<close> before the handler runs, leaving the store as it is, and
  \<open>hasPerms\<close> answers no.
\<close>

theorem C6_blacklisted_forbidden:
  assumes "session ctx = Some sess" and "user sess = Some u" and "blacklisted u"
  shows "isAuthed ctx = Inl (TRPCError FORBIDDEN None None)
    \<and> protectedProcedure handler ctx input s = (Inl (TRPCError FORBIDDEN None None), s)
    \<and> \<not> hasPerms caller r owner required (blacklisted u)"
  using assms by (simp add: isAuthed_def protectedProcedure_def hasPerms_def)

theorem C6_witness:
  "isAuthed \<lparr>session = Some \<lparr>user = Some eve\<rparr>\<rparr> = Inl (TRPCError FORBIDDEN None None)
   \<and> protectedProcedure gameplayRouter_update \<lparr>session = Some \<lparr>user = Some eve\<rparr>\<rparr>
        (cuid_g1, VAL, True) prisma_1 = (Inl (TRPCError FORBIDDEN None None), prisma_1)
   \<and> protectedProcedure (query (gameplayRouter_getReviewItems (0, 0, 0)))
        \<lparr>session = Some \<lparr>user = Some eve\<rparr>\<rparr> () prisma_1 =
        (Inl (TRPCError FORBIDDEN None None), prisma_1)
   \<and> role eve = ADMIN
   \<and> hasPerms (user_id eve) (role eve) (user_id eve) isOwner (blacklisted eve) = False"
  using C6_blacklisted_forbidden [of "\<lparr>session = Some \<lparr>user = Some eve\<rparr>\<rparr>" "\<lparr>user = Some eve\<rparr>" eve
      gameplayRouter_update "(cuid_g1, VAL, True)" prisma_1 "user_id eve" "role eve"
      "user_id eve" isOwner]
    C6_blacklisted_forbidden [of "\<lparr>session = Some \<lparr>user = Some eve\<rparr>\<rparr>" "\<lparr>user = Some eve\<rparr>" eve
      "query (gameplayRouter_getReviewItems (0, 0, 0))" "()" prisma_1]
  by (simp add: eve_def)





text \<open>
  C9: a record the review-item picker returns is a record of the store on which the caller
  has no vote; and when the caller has voted on every record, in particular when the store
  has no record, the picker fails with \<open>NOT_FOUND\<close>.
\<close>

theorem C9_review_item_unvoted:
  "(gameplayRouter_getReviewItems (r1, r2, r3) u () s = Inr item \<longrightarrow>
      review_gameplay item \<in> set (gameplay_rows s)
      \<and> (\<forall>v \<in> set (gameplayVotes_rows s).
            vote_gameplayId v = gameplay_id (review_gameplay item)
              \<longrightarrow> vote_userId v \<noteq> user_id u))
   \<and> (0 \<le> r1 \<and> r1 < 1 \<and> 0 \<le> r2 \<and> r2 < 1 \<and> 0 \<le> r3 \<and> r3 < 1
       \<and> (\<forall>g \<in> set (gameplay_rows s). \<exists>v \<in> set (gameplayVotes_rows s).
             vote_gameplayId v = gameplay_id g \<and> vote_userId v = user_id u) \<longrightarrow>
      gameplayRouter_getReviewItems (r1, r2, r3) u () s = Inl (TRPCError NOT_FOUND None None))
   \<and> (0 \<le> r1 \<and> r1 < 1 \<and> 0 \<le> r2 \<and> r2 < 1 \<and> 0 \<le> r3 \<and> r3 < 1
       \<and> gameplay_rows s = [] \<longrightarrow>
      gameplayRouter_getReviewItems (r1, r2, r3) u () s = Inl (TRPCError NOT_FOUND None None))"
proof -
  let ?elig = "filter (unvoted s (user_id u)) (gameplay_rows s)"
  let ?k = "randomPick r1 [''userId'', ''id'', ''youtubeUrl'']"
  let ?d = "randomPick r2 [''desc'', ''asc'']"
  have returned: "review_gameplay item \<in> set ?elig"
    if "gameplayRouter_getReviewItems (r1, r2, r3) u () s = Inr item"
  proof -
    from that obtain rows g rest where o: "ordered ?k ?d ?elig = Inr rows"
      and f: "findMany 1 (tenDocs r3 (int (length (gameplay_rows s)))) rows = Inr (g # rest)"
      and i: "review_gameplay item = g"
      by (auto simp: gameplayRouter_getReviewItems_def Let_def
          split: sum.splits list.splits)
    from f have "g \<in> set (take 1 (drop (nat (tenDocs r3 (int (length (gameplay_rows s))))) rows))"
      by (auto simp: findMany_def split: if_splits)
    then have "g \<in> set rows"
      by (blast dest: in_set_takeD in_set_dropD)
    then show ?thesis using ordered_set [OF o] i by simp
  qed
  have none: "gameplayRouter_getReviewItems (r1, r2, r3) u () s =
      Inl (TRPCError NOT_FOUND None None)"
    if r: "0 \<le> r1" "r1 < 1" "0 \<le> r2" "r2 < 1" "0 \<le> r3" and e: "?elig = []"
  proof -
    have o: "ordered ?k ?d ?elig = Inr []" using r(1-4) e by (simp add: ordered_Nil)
    have "0 \<le> tenDocs r3 (int (length (gameplay_rows s)))"
      using r(5) by (simp add: tenDocs_nonneg)
    then have "findMany 1 (tenDocs r3 (int (length (gameplay_rows s)))) [] = Inr ([] :: Gameplay list)"
      by (simp add: findMany_def)
    then show ?thesis using o
      by (simp add: gameplayRouter_getReviewItems_def Let_def)
  qed
  have c1: "gameplayRouter_getReviewItems (r1, r2, r3) u () s = Inr item \<longrightarrow>
      review_gameplay item \<in> set (gameplay_rows s)
      \<and> (\<forall>v \<in> set (gameplayVotes_rows s).
            vote_gameplayId v = gameplay_id (review_gameplay item)
              \<longrightarrow> vote_userId v \<noteq> user_id u)"
    using returned by (auto simp: unvoted_def list_ex_iff)
  have c2: "0 \<le> r1 \<and> r1 < 1 \<and> 0 \<le> r2 \<and> r2 < 1 \<and> 0 \<le> r3 \<and> r3 < 1
       \<and> (\<forall>g \<in> set (gameplay_rows s). \<exists>v \<in> set (gameplayVotes_rows s).
             vote_gameplayId v = gameplay_id g \<and> vote_userId v = user_id u) \<longrightarrow>
      gameplayRouter_getReviewItems (r1, r2, r3) u () s = Inl (TRPCError NOT_FOUND None None)"
  proof
    assume a: "0 \<le> r1 \<and> r1 < 1 \<and> 0 \<le> r2 \<and> r2 < 1 \<and> 0 \<le> r3 \<and> r3 < 1
       \<and> (\<forall>g \<in> set (gameplay_rows s). \<exists>v \<in> set (gameplayVotes_rows s).
             vote_gameplayId v = gameplay_id g \<and> vote_userId v = user_id u)"
    then have "?elig = []" by (auto simp: filter_empty_conv unvoted_def list_ex_iff)
    with a show "gameplayRouter_getReviewItems (r1, r2, r3) u () s =
      Inl (TRPCError NOT_FOUND None None)" by (intro none) simp_all
  qed
  have c3: "0 \<le> r1 \<and> r1 < 1 \<and> 0 \<le> r2 \<and> r2 < 1 \<and> 0 \<le> r3 \<and> r3 < 1
       \<and> gameplay_rows s = [] \<longrightarrow>
      gameplayRouter_getReviewItems (r1, r2, r3) u () s = Inl (TRPCError NOT_FOUND None None)"
  proof
    assume a: "0 \<le> r1 \<and> r1 < 1 \<and> 0 \<le> r2 \<and> r2 < 1 \<and> 0 \<le> r3 \<and> r3 < 1
       \<and> gameplay_rows s = []"
    then have "?elig = []" by simp
    with a show "gameplayRouter_getReviewItems (r1, r2, r3) u () s =
      Inl (TRPCError NOT_FOUND None None)" by (intro none) simp_all
  qed
  show ?thesis using c1 c2 c3 by blast
qed

theorem C9_witness:
  "gameplayRouter_getReviewItems (0, 0, 0) ann () prisma_1 =
     Inr \<lparr>review_gameplay = gameplay_a, review_user = Some ann,
          review_gameplayVotes = [vote_b]\<rparr>
   \<and> vote_userId vote_b \<noteq> user_id ann
   \<and> gameplayRouter_getReviewItems (1 / 2, 1 / 2, 1 / 2) bob () prisma_1 =
     Inl (TRPCError NOT_FOUND None None)
   \<and> gameplayRouter_getReviewItems (1 / 2, 1 / 2, 1 / 2) ann () prisma_0 =
     Inl (TRPCError NOT_FOUND None None)"
proof -
  have a: "gameplayRouter_getReviewItems (0, 0, 0) ann () prisma_1 =
     Inr \<lparr>review_gameplay = gameplay_a, review_user = Some ann,
          review_gameplayVotes = [vote_b]\<rparr>"
    by (simp add: gameplayRouter_getReviewItems_def randomPick_def tenDocs_def ordered_def
        order_key_def unvoted_def findMany_def example_defs)
  have b: "vote_userId vote_b \<noteq> user_id ann"
    using a C9_review_item_unvoted [of 0 0 0 ann prisma_1
        "\<lparr>review_gameplay = gameplay_a, review_user = Some ann,
          review_gameplayVotes = [vote_b]\<rparr>"]
    by (simp add: prisma_1_def gameplay_a_def vote_b_def)
  have c: "gameplayRouter_getReviewItems (1 / 2, 1 / 2, 1 / 2) bob () prisma_1 =
     Inl (TRPCError NOT_FOUND None None)"
    using C9_review_item_unvoted [of "1 / 2" "1 / 2" "1 / 2" bob prisma_1]
    by (simp add: prisma_1_def gameplay_a_def vote_b_def)
  have d: "gameplayRouter_getReviewItems (1 / 2, 1 / 2, 1 / 2) ann () prisma_0 =
     Inl (TRPCError NOT_FOUND None None)"
    using C9_review_item_unvoted [of "1 / 2" "1 / 2" "1 / 2" ann prisma_0]
    by (simp add: prisma_0_def)
  show ?thesis using a b c d by simp
qed

text \<open>
  C10: when a user id has no footage documents, the get-footage-by-owner endpoint fails
  with status 404 instead of returning an empty list; when a footage id has no clip
  documents, the list-clips-by-parent endpoint likewise fails with status 404.
\<close>

theorem C10_empty_listing_is_404:
  "((\<forall>d \<in> set (Footage_docs s). discordId d \<noteq> u) \<longrightarrow>
     getUserFootage u s = Inl (HttpError 404 ''No footage found with the provided User ID.''))
   \<and> ((\<forall>c \<in> set (Clip_docs s). footage c \<noteq> f) \<longrightarrow>
     getFootageClips f s =
       Inl (HttpError 404 (''No clips found for footage with uuid '' @ dq @ f @ dq)))"
  by (auto simp: getUserFootage_def getFootageClips_def find_docs_def filter_empty_conv)

theorem C10_witness:
  "getUserFootage ''7'' backend_1 =
     Inl (HttpError 404 ''No footage found with the provided User ID.'')
   \<and> getFootageClips uuid_2 backend_1 =
     Inl (HttpError 404 (''No clips found for footage with uuid '' @ dq @ uuid_2 @ dq))"
  using C10_empty_listing_is_404 [of backend_1 "''7''" uuid_2]
  by (simp add: example_defs)

end
